theory Spec2Isabelle
  imports Main
begin

section \<open>Values, requests and replies\<close>

text \<open>
  The client of \<^verbatim>\<open>src/globus_sdk/search/client.py\<close> is a Python class whose thirteen
  methods each compute a path and a parameter mapping and end in a call of one of the base
  client's \<^verbatim>\<open>get\<close>, \<^verbatim>\<open>post\<close>, \<^verbatim>\<open>put\<close>, \<^verbatim>\<open>delete\<close>.
  Python values that reach a method as an index identifier or as a query parameter are
  modelled by \<open>pyval\<close>; \<open>PyNone\<close> is Python's \<^verbatim>\<open>None\<close>.
\<close>

datatype pyval = PyNone | PyBool bool | PyInt int | PyStr string

text \<open>A keyword dictionary (\<^verbatim>\<open>**params\<close>): a key is bound or it is not.\<close>

type_synonym pydict = "string \<rightharpoonup> pyval"

text \<open>JSON documents: request bodies and reply bodies.\<close>

datatype json =
    JNull
  | JBool bool
  | JNum int
  | JStr string
  | JArr "json list"
  | JObj "(string \<times> json) list"

datatype http_verb = GET | POST | PUT | DELETE

text \<open>
  What a method hands to the transport: the verb, the path, the query parameters
  (\<open>None\<close> when the method passes no \<^verbatim>\<open>params\<close> argument, or passes Python's
  \<^verbatim>\<open>None\<close>), and the JSON body of a \<^verbatim>\<open>post\<close> or \<^verbatim>\<open>put\<close>.
\<close>

record request =
  verb :: http_verb
  path :: string
  params :: "pydict option"
  json_body :: "json option"

record http_reply =
  status :: int
  body :: json

text \<open>\<^verbatim>\<open>default_response_class = GlobusHTTPResponse\<close>: the parsed body and the status.\<close>

record GlobusHTTPResponse =
  http_status :: int
  data :: json

record error_info =
  err_status :: int
  err_code :: "string option"
  err_message :: "string option"

datatype exn =
    NetworkError string
  | SearchAPIError error_info
  | GlobusSDKUsageError

text \<open>
  The transport collaborator: given a request and the state of the outside world it
  either fails at the network level or produces a reply, and leaves a new state.
\<close>

type_synonym 'st transport = "request \<Rightarrow> 'st \<Rightarrow> (string + http_reply) \<times> 'st"

section \<open>Helpers of the base module\<close>

text \<open>
  \<^verbatim>\<open>merge_params\<close>, \<^verbatim>\<open>safe_stringify\<close>, \<^verbatim>\<open>qjoin_path\<close> and the base client's
  request methods are imported by the client from \<^verbatim>\<open>globus_sdk.base\<close>; that module
  is not among the sources, so each is modelled from the specification.
\<close>

fun merge_into :: "pydict \<Rightarrow> (string \<times> pyval) list \<Rightarrow> pydict" where
  "merge_into base_params [] = base_params"
| "merge_into base_params ((k, v) # more_params) =
     merge_into (if v \<noteq> PyNone then base_params(k \<mapsto> v) else base_params) more_params"

text \<open>
  Modelled from the spec: \<^verbatim>\<open>merge_params(base_params, **more_params)\<close> of
  \<^verbatim>\<open>globus_sdk.base\<close>. Section 4.1: the named parameters are merged into the
  caller-supplied mapping, and a parameter whose value is absent is dropped.
  The merge is in place. The first component is the caller's mapping after the call,
  which \<^verbatim>\<open>search\<close> (line 77) goes on with, discarding what the call returns. The
  second component is the value the call returns: the helper is a procedure that updates
  its argument and returns nothing, which in Python is \<^verbatim>\<open>None\<close>.
  \<^verbatim>\<open>get_subject\<close>, \<^verbatim>\<open>delete_subject\<close>, \<^verbatim>\<open>get_entry\<close> and
  \<^verbatim>\<open>delete_entry\<close> rebind \<^verbatim>\<open>params\<close> to that value (lines 228, 248, 279, 365).
\<close>

definition merge_params :: "pydict \<Rightarrow> (string \<times> pyval) list \<Rightarrow> pydict \<times> pydict option" where
  "merge_params base_params more_params = (merge_into base_params more_params, None)"

text \<open>Python's \<^verbatim>\<open>str\<close> on the scalar values.\<close>

fun str_nat :: "nat \<Rightarrow> string" where
  "str_nat n = (if n < 10 then [''0123456789'' ! n]
                else str_nat (n div 10) @ [''0123456789'' ! (n mod 10)])"

definition str_int :: "int \<Rightarrow> string" where
  "str_int i = (if i < 0 then CHR ''-'' # str_nat (nat (- i)) else str_nat (nat i))"

text \<open>
  Modelled from the spec: \<^verbatim>\<open>safe_stringify\<close> of \<^verbatim>\<open>globus_sdk.base\<close>. Section 3:
  an index identifier is coerced to its string form before it is used in a path.
\<close>

fun safe_stringify :: "pyval \<Rightarrow> string" where
  "safe_stringify (PyStr s) = s"
| "safe_stringify (PyInt i) = str_int i"
| "safe_stringify (PyBool b) = (if b then ''True'' else ''False'')"
| "safe_stringify PyNone = ''None''"

definition strip_sep :: "string \<Rightarrow> string" where
  "strip_sep s =
     rev (dropWhile (\<lambda>c. c = CHR ''/'') (rev (dropWhile (\<lambda>c. c = CHR ''/'') s)))"

fun join_sep :: "string list \<Rightarrow> string" where
  "join_sep [] = []"
| "join_sep [x] = x"
| "join_sep (x # y # ys) = x @ CHR ''/'' # join_sep (y # ys)"

text \<open>
  Modelled from the spec: \<^verbatim>\<open>BaseClient.qjoin_path(*parts)\<close>. Section 4.1: segments
  are joined with a single separator after trimming, producing exactly one instance of
  the separator between segments. Trimming removes the separators at both ends of a part.
  The result is the path relative to the service's base URL, which the transport
  prepends; the operation table writes that root as a leading \<^verbatim>\<open>/\<close>.
\<close>

definition qjoin_path :: "string list \<Rightarrow> string" where
  "qjoin_path parts = join_sep (map strip_sep parts)"

text \<open>
  Modelled from the spec: the base client's \<^verbatim>\<open>get\<close>, \<^verbatim>\<open>post\<close>, \<^verbatim>\<open>put\<close> and
  \<^verbatim>\<open>delete\<close>. Section 2: the transport is given the verb, the path, the query
  parameters and the optional JSON body. A method's value in the model is the request
  its final call makes the base client send; \<open>send\<close> below performs it.
\<close>

definition get :: "string \<Rightarrow> pydict option \<Rightarrow> request" where
  "get p q = \<lparr>verb = GET, path = p, params = q, json_body = None\<rparr>"

definition post :: "string \<Rightarrow> json \<Rightarrow> request" where
  "post p d = \<lparr>verb = POST, path = p, params = None, json_body = Some d\<rparr>"

definition put :: "string \<Rightarrow> json \<Rightarrow> request" where
  "put p d = \<lparr>verb = PUT, path = p, params = None, json_body = Some d\<rparr>"

definition delete :: "string \<Rightarrow> pydict option \<Rightarrow> request" where
  "delete p q = \<lparr>verb = DELETE, path = p, params = q, json_body = None\<rparr>"

section \<open>SearchClient\<close>

text \<open>
  A parameter with a default (\<^verbatim>\<open>offset=0\<close>, \<^verbatim>\<open>entry_id=None\<close>) is an optional
  argument of the model: \<open>None\<close> when the caller omits it, \<open>Some v\<close> when the caller
  passes \<open>v\<close> (which may be \<open>PyNone\<close>).
\<close>

definition arg_default :: "pyval \<Rightarrow> pyval option \<Rightarrow> pyval" where
  "arg_default d a = (case a of None \<Rightarrow> d | Some v \<Rightarrow> v)"

text \<open>
  The calls of \<^verbatim>\<open>self.logger.info\<close> write a log line and touch neither the request
  nor the result; they are left out.
\<close>

definition get_index :: "pyval \<Rightarrow> pydict \<Rightarrow> request" where
  "get_index index_id kwargs =
     (let index_id = safe_stringify index_id;
          pth = qjoin_path [''v1/index'', index_id]
      in get pth (Some kwargs))"

definition search ::
  "pyval \<Rightarrow> pyval \<Rightarrow> pyval option \<Rightarrow> pyval option \<Rightarrow> pyval option \<Rightarrow> pyval option \<Rightarrow> pydict
     \<Rightarrow> request" where
  "search index_id q offset limit query_template advanced kwargs =
     (let offset = arg_default (PyInt 0) offset;
          limit = arg_default (PyInt 10) limit;
          query_template = arg_default PyNone query_template;
          advanced = arg_default (PyBool False) advanced;
          index_id = safe_stringify index_id;
          (kwargs, _) = merge_params kwargs
             [(''q'', q), (''offset'', offset), (''limit'', limit),
              (''query_template'', query_template), (''advanced'', advanced)];
          pth = qjoin_path [''v1/index'', index_id, ''search'']
      in get pth (Some kwargs))"

definition post_search :: "pyval \<Rightarrow> json \<Rightarrow> request" where
  "post_search index_id d =
     (let index_id = safe_stringify index_id;
          pth = qjoin_path [''v1/index'', index_id, ''search'']
      in post pth d)"

definition ingest :: "pyval \<Rightarrow> json \<Rightarrow> request" where
  "ingest index_id d =
     (let index_id = safe_stringify index_id;
          pth = qjoin_path [''v1/index'', index_id, ''ingest'']
      in post pth d)"

definition delete_by_query :: "pyval \<Rightarrow> json \<Rightarrow> request" where
  "delete_by_query index_id d =
     (let index_id = safe_stringify index_id;
          pth = qjoin_path [''v1/index'', index_id, ''delete_by_query'']
      in post pth d)"

definition get_subject :: "pyval \<Rightarrow> pyval \<Rightarrow> pydict \<Rightarrow> request" where
  "get_subject index_id subject kwargs =
     (let index_id = safe_stringify index_id;
          (_, kwargs) = merge_params kwargs [(''subject'', subject)];
          pth = qjoin_path [''v1/index'', index_id, ''subject'']
      in get pth kwargs)"

definition delete_subject :: "pyval \<Rightarrow> pyval \<Rightarrow> pydict \<Rightarrow> request" where
  "delete_subject index_id subject kwargs =
     (let index_id = safe_stringify index_id;
          (_, kwargs) = merge_params kwargs [(''subject'', subject)];
          pth = qjoin_path [''v1/index'', index_id, ''subject'']
      in delete pth kwargs)"

definition get_entry :: "pyval \<Rightarrow> pyval \<Rightarrow> pyval option \<Rightarrow> pydict \<Rightarrow> request" where
  "get_entry index_id subject entry_id kwargs =
     (let entry_id = arg_default PyNone entry_id;
          index_id = safe_stringify index_id;
          (_, kwargs) = merge_params kwargs [(''subject'', subject), (''entry_id'', entry_id)];
          pth = qjoin_path [''v1/index'', index_id, ''entry'']
      in get pth kwargs)"

definition create_entry :: "pyval \<Rightarrow> json \<Rightarrow> request" where
  "create_entry index_id d =
     (let index_id = safe_stringify index_id;
          pth = qjoin_path [''v1/index'', index_id, ''entry'']
      in post pth d)"

definition update_entry :: "pyval \<Rightarrow> json \<Rightarrow> request" where
  "update_entry index_id d =
     (let index_id = safe_stringify index_id;
          pth = qjoin_path [''v1/index'', index_id, ''entry'']
      in put pth d)"

definition delete_entry :: "pyval \<Rightarrow> pyval \<Rightarrow> pyval option \<Rightarrow> pydict \<Rightarrow> request" where
  "delete_entry index_id subject entry_id kwargs =
     (let entry_id = arg_default PyNone entry_id;
          index_id = safe_stringify index_id;
          (_, kwargs) = merge_params kwargs [(''subject'', subject), (''entry_id'', entry_id)];
          pth = qjoin_path [''v1/index'', index_id, ''entry'']
      in delete pth kwargs)"

definition get_query_template :: "pyval \<Rightarrow> string \<Rightarrow> request" where
  "get_query_template index_id template_name =
     (let index_id = safe_stringify index_id;
          pth = qjoin_path [''v1/index'', index_id, ''query_template'', template_name]
      in get pth None)"

definition get_query_template_list :: "pyval \<Rightarrow> request" where
  "get_query_template_list index_id =
     (let index_id = safe_stringify index_id;
          pth = qjoin_path [''v1/index'', index_id, ''query_template'']
      in get pth None)"

section \<open>Sending a request\<close>

definition json_field :: "json \<Rightarrow> string \<Rightarrow> json option" where
  "json_field j k = (case j of JObj kvs \<Rightarrow> map_of kvs k | _ \<Rightarrow> None)"

definition json_string :: "json option \<Rightarrow> string option" where
  "json_string j = (case j of Some (JStr s) \<Rightarrow> Some s | _ \<Rightarrow> None)"

text \<open>
  Modelled from the spec: the exception class \<^verbatim>\<open>exc.SearchAPIError\<close>, built from a
  reply. Sections 3 and 7: it carries the status code, the machine-readable error code
  if the body has one, and the message extracted from the JSON error body.
\<close>

definition exc_SearchAPIError :: "http_reply \<Rightarrow> exn" where
  "exc_SearchAPIError r =
     SearchAPIError \<lparr>err_status = status r,
                     err_code = json_string (json_field (body r) ''code''),
                     err_message = json_string (json_field (body r) ''message'')\<rparr>"

text \<open>Line 32: \<^verbatim>\<open>error_class = exc.SearchAPIError\<close>.\<close>

definition error_class :: "http_reply \<Rightarrow> exn" where
  "error_class = exc_SearchAPIError"

text \<open>Line 33: \<^verbatim>\<open>default_response_class = GlobusHTTPResponse\<close>.\<close>

definition default_response_class :: "http_reply \<Rightarrow> GlobusHTTPResponse" where
  "default_response_class r = \<lparr>http_status = status r, data = body r\<rparr>"

text \<open>
  Modelled from the spec: what the base client does with the request of a method
  (sections 2, 4.1 and 7). The transport is called once; a network failure is passed on
  as it is; a reply whose status is not 2xx is raised as the client's error class; any
  other reply is returned in the response wrapper. The authorization header that the
  base client adds from its authorizer is below what is modelled here.
\<close>

definition send :: "'st transport \<Rightarrow> request \<Rightarrow> 'st \<Rightarrow> (exn + GlobusHTTPResponse) \<times> 'st" where
  "send tr req st =
     (case tr req st of
        (Inl e, st') \<Rightarrow> (Inl (NetworkError e), st')
      | (Inr r, st') \<Rightarrow>
          (if 200 \<le> status r \<and> status r < 300 then Inr (default_response_class r)
           else Inl (error_class r), st'))"

text \<open>A stub transport that answers every request with the same reply.\<close>

definition fixed_reply :: "http_reply \<Rightarrow> unit transport" where
  "fixed_reply r req st = (Inr r, st)"

section \<open>Constructing the client\<close>

datatype authorizer_type =
    AccessTokenAuthorizer
  | RefreshTokenAuthorizer
  | ClientCredentialsAuthorizer
  | BasicAuthorizer

record authorizer =
  authorizer_kind :: authorizer_type
  credentials :: string

record client =
  service :: string
  client_authorizer :: "authorizer option"
  options :: pydict

text \<open>Lines 28 to 31, under the comment \<^verbatim>\<open># disallow basic auth\<close>.\<close>

definition allowed_authorizer_types :: "authorizer_type list" where
  "allowed_authorizer_types =
     [AccessTokenAuthorizer, RefreshTokenAuthorizer, ClientCredentialsAuthorizer]"

text \<open>
  Modelled from the spec: \<^verbatim>\<open>BaseClient.__init__\<close>. Section 6: only the authorizer
  variants the client class allows are accepted. The authorizer is optional
  (\<^verbatim>\<open>authorizer=None\<close> is the default of line 35); a client without one is built.
\<close>

definition BaseClient_init ::
  "authorizer_type list \<Rightarrow> string \<Rightarrow> authorizer option \<Rightarrow> pydict \<Rightarrow> exn + client" where
  "BaseClient_init allowed srv auth kwargs =
     (case auth of
        None \<Rightarrow> Inr \<lparr>service = srv, client_authorizer = None, options = kwargs\<rparr>
      | Some a \<Rightarrow>
          (if authorizer_kind a \<in> set allowed
           then Inr \<lparr>service = srv, client_authorizer = Some a, options = kwargs\<rparr>
           else Inl GlobusSDKUsageError))"

text \<open>Lines 35 and 36.\<close>

definition SearchClient_init :: "authorizer option \<Rightarrow> pydict \<Rightarrow> exn + client" where
  "SearchClient_init auth kwargs =
     BaseClient_init allowed_authorizer_types ''search'' auth kwargs"

section \<open>Observations on a request\<close>

text \<open>
  The value a key is bound to in the mapping handed to the transport; \<open>None\<close> when
  the key is not there, or when no mapping is handed over.
\<close>

definition sent_param :: "request \<Rightarrow> string \<Rightarrow> pyval option" where
  "sent_param req k = (case params req of None \<Rightarrow> None | Some m \<Rightarrow> m k)"

text \<open>The segments of a path: the pieces between separators.\<close>

fun split_sep :: "string \<Rightarrow> string list" where
  "split_sep [] = [[]]"
| "split_sep (c # cs) =
     (if c = CHR ''/'' then [] # split_sep cs
      else (case split_sep cs of [] \<Rightarrow> [[c]] | w # ws \<Rightarrow> (c # w) # ws))"

fun double_sep :: "string \<Rightarrow> bool" where
  "double_sep (a # b # cs) = ((a = CHR ''/'' \<and> b = CHR ''/'') \<or> double_sep (b # cs))"
| "double_sep _ = False"

text \<open>
  A keyword dictionary never binds the name of a named parameter of the method it is
  passed to: Python binds such a keyword to the named parameter itself.
\<close>

definition no_named :: "pydict \<Rightarrow> string list \<Rightarrow> bool" where
  "no_named kwargs names = list_all (\<lambda>n. kwargs n = None) names"

text \<open>
  A segment that can stand in a path as it is: not empty, and free of the separator.
\<close>

definition clean_segment :: "string \<Rightarrow> bool" where
  "clean_segment s = (s \<noteq> [] \<and> CHR ''/'' \<notin> set s)"

text \<open>The literal segments the thirteen methods build their paths from.\<close>

definition fixed_segments :: "string list" where
  "fixed_segments =
     [''v1'', ''index'', ''search'', ''ingest'', ''delete_by_query'', ''subject'', ''entry'',
      ''query_template'']"

text \<open>
  The path property of section 8: exactly one segment of the path is the given one, and
  no two separators are adjacent.
\<close>

definition one_segment :: "string \<Rightarrow> string \<Rightarrow> bool" where
  "one_segment s p = (count_list (split_sep p) s = 1 \<and> \<not> double_sep p)"

section \<open>A stub of the remote service\<close>

definition json_of :: "pyval \<Rightarrow> json" where
  "json_of v = (case v of PyNone \<Rightarrow> JNull | PyBool b \<Rightarrow> JBool b | PyInt i \<Rightarrow> JNum i
                | PyStr s \<Rightarrow> JStr s)"

definition or_null :: "json option \<Rightarrow> json" where
  "or_null j = (case j of None \<Rightarrow> JNull | Some v \<Rightarrow> v)"

text \<open>The stored entries: the path each document was posted to, and the document.\<close>

type_synonym entries = "(string \<times> json) list"

definition entry_matches :: "string \<Rightarrow> json \<Rightarrow> json \<Rightarrow> string \<times> json \<Rightarrow> bool" where
  "entry_matches p subj eid e =
     (fst e = p \<and> or_null (json_field (snd e) ''subject'') = subj
      \<and> or_null (json_field (snd e) ''id'') = eid)"

text \<open>
  Modelled from the spec: the storage contract of the remote service that section 8
  calls verifiable through a stub transport. A document posted to a path is stored under
  that path; a \<^verbatim>\<open>GET\<close> on the path with the parameters \<^verbatim>\<open>subject\<close> and
  \<^verbatim>\<open>entry_id\<close> answers with the latest stored document of that path whose
  \<^verbatim>\<open>subject\<close> and \<^verbatim>\<open>id\<close> fields are those (a document without an \<^verbatim>\<open>id\<close> has
  the null entry id, as in the docstrings of lines 259 to 316), and with 404 if there is
  none. The key names are those of the docstrings of \<^verbatim>\<open>create_entry\<close> and
  \<^verbatim>\<open>get_entry\<close>.
\<close>

definition stub_service :: "entries transport" where
  "stub_service req db =
     (case verb req of
        POST \<Rightarrow>
          (case json_body req of
             None \<Rightarrow> (Inr \<lparr>status = 400, body = JNull\<rparr>, db)
           | Some doc \<Rightarrow>
               (Inr \<lparr>status = 200, body = JObj [(''success'', JBool True)]\<rparr>,
                (path req, doc) # db))
      | GET \<Rightarrow>
          (case find (entry_matches (path req)
                        (or_null (map_option json_of (sent_param req ''subject'')))
                        (or_null (map_option json_of (sent_param req ''entry_id'')))) db of
             None \<Rightarrow>
               (Inr \<lparr>status = 404,
                     body = JObj [(''code'', JStr ''NotFound''),
                                  (''message'', JStr ''no such entry'')]\<rparr>, db)
           | Some e \<Rightarrow> (Inr \<lparr>status = 200, body = snd e\<rparr>, db))
      | PUT \<Rightarrow> (Inr \<lparr>status = 405, body = JNull\<rparr>, db)
      | DELETE \<Rightarrow> (Inr \<lparr>status = 405, body = JNull\<rparr>, db))"

section \<open>Facts about paths\<close>

lemma strip_sep_clean: "CHR ''/'' \<notin> set s \<Longrightarrow> strip_sep s = s"
proof -
  assume a: "CHR ''/'' \<notin> set s"
  have d: "dropWhile (\<lambda>c. c = CHR ''/'') xs = xs" if "CHR ''/'' \<notin> set xs" for xs
    using that by (cases xs) auto
  show ?thesis using a by (simp add: strip_sep_def d)
qed

lemma split_sep_nonempty: "split_sep s \<noteq> []"
  by (induction s) (auto split: list.splits)

lemma split_sep_Cons:
  "split_sep (c # cs) =
     (if c = CHR ''/'' then [] # split_sep cs
      else (c # hd (split_sep cs)) # tl (split_sep cs))"
  using split_sep_nonempty [of cs] by (cases "split_sep cs") auto

lemma split_sep_clean: "CHR ''/'' \<notin> set s \<Longrightarrow> split_sep s = [s]"
  by (induction s) auto

lemma split_sep_append:
  "CHR ''/'' \<notin> set a \<Longrightarrow> split_sep (a @ CHR ''/'' # b) = a # split_sep b"
  by (induction a) auto

lemma double_sep_tl: "double_sep p \<Longrightarrow> [] \<in> set (tl (split_sep p))"
proof (induction p rule: double_sep.induct)
  case (1 a b cs)
  then show ?case
    using split_sep_nonempty [of "b # cs"] split_sep_nonempty [of cs]
    by (cases "split_sep (b # cs)")
       (auto simp del: split_sep.simps simp add: split_sep_Cons split: if_splits)
qed auto

lemma no_double_sep: "[] \<notin> set (split_sep p) \<Longrightarrow> \<not> double_sep p"
  using double_sep_tl [of p] by (cases "split_sep p") auto

lemma qjoin2: "qjoin_path [''v1/index'', s] = ''v1/index/'' @ strip_sep s"
  by (simp add: qjoin_path_def strip_sep_def)

lemma qjoin3:
  "qjoin_path [''v1/index'', s, x] = ''v1/index/'' @ strip_sep s @ CHR ''/'' # strip_sep x"
  by (simp add: qjoin_path_def strip_sep_def)

lemma qjoin4:
  "qjoin_path [''v1/index'', s, x, y] =
     ''v1/index/'' @ strip_sep s @ CHR ''/'' # strip_sep x @ CHR ''/'' # strip_sep y"
  by (simp add: qjoin_path_def strip_sep_def)

lemma segs2:
  "CHR ''/'' \<notin> set s \<Longrightarrow> split_sep (qjoin_path [''v1/index'', s]) = [''v1'', ''index'', s]"
  by (simp add: qjoin2 strip_sep_clean split_sep_append split_sep_clean split_sep_Cons
           del: split_sep.simps)

lemma segs3:
  "CHR ''/'' \<notin> set s \<Longrightarrow> CHR ''/'' \<notin> set x \<Longrightarrow>
   split_sep (qjoin_path [''v1/index'', s, x]) = [''v1'', ''index'', s, x]"
  by (simp add: qjoin3 strip_sep_clean split_sep_append split_sep_clean split_sep_Cons
           del: split_sep.simps)

lemma segs4:
  "CHR ''/'' \<notin> set s \<Longrightarrow> CHR ''/'' \<notin> set x \<Longrightarrow> CHR ''/'' \<notin> set y \<Longrightarrow>
   split_sep (qjoin_path [''v1/index'', s, x, y]) = [''v1'', ''index'', s, x, y]"
  by (simp add: qjoin4 strip_sep_clean split_sep_append split_sep_clean split_sep_Cons
           del: split_sep.simps)

section \<open>Query parameters of the subject and entry operations\<close>

text \<open>
  The four methods that rebind \<^verbatim>\<open>params\<close> to the value \<^verbatim>\<open>merge_params\<close>
  returns hand the transport no parameter mapping, whatever the caller passed.
\<close>

lemma rebinding_loses_params:
  "params (get_subject i s kw) = None" "params (delete_subject i s kw) = None"
  "params (get_entry i s e kw) = None" "params (delete_entry i s e kw) = None"
  by (simp_all add: Let_def get_subject_def delete_subject_def get_entry_def
        delete_entry_def merge_params_def get_def delete_def)

text \<open>
  Claim C1 asks that \<^verbatim>\<open>get_subject\<close> and \<^verbatim>\<open>delete_subject\<close> hand the transport
  the caller's mapping with the key \<^verbatim>\<open>subject\<close> bound to the given subject. The code
  does not: lines 228 and 248 rebind \<^verbatim>\<open>params\<close> to what \<^verbatim>\<open>merge_params\<close>
  returns, so at \<^verbatim>\<open>get_subject("abc-123", "http://example.com/abc", x=1)\<close> and at the
  same call of \<^verbatim>\<open>delete_subject\<close> the transport is handed no parameter mapping, and
  neither the subject nor the caller's \<^verbatim>\<open>x\<close> is transmitted.
\<close>

theorem subject_param_lost:
  "params (get_subject (PyStr ''abc-123'') (PyStr ''http://example.com/abc'')
      [''x'' \<mapsto> PyInt 1]) = None
   \<and> sent_param (get_subject (PyStr ''abc-123'') (PyStr ''http://example.com/abc'')
        [''x'' \<mapsto> PyInt 1]) ''subject'' = None
   \<and> params (delete_subject (PyStr ''abc-123'') (PyStr ''http://example.com/abc'')
        [''x'' \<mapsto> PyInt 1]) = None
   \<and> sent_param (delete_subject (PyStr ''abc-123'') (PyStr ''http://example.com/abc'')
        [''x'' \<mapsto> PyInt 1]) ''subject'' = None"
  by (simp add: Let_def get_subject_def delete_subject_def merge_params_def sent_param_def
        get_def delete_def)

text \<open>
  Claim C2 asks that \<^verbatim>\<open>get_entry\<close> and \<^verbatim>\<open>delete_entry\<close> hand the transport a
  mapping without \<^verbatim>\<open>entry_id\<close> when it is absent, and with \<^verbatim>\<open>entry_id\<close> bound to
  the value passed when it is present. The code does not do the second: lines 279 and 365
  rebind \<^verbatim>\<open>params\<close> to what \<^verbatim>\<open>merge_params\<close> returns, so at
  \<^verbatim>\<open>get_entry("abc-123", "https://example.com/foo/bar", entry_id="foo/bar")\<close> and at
  the same call of \<^verbatim>\<open>delete_entry\<close> the transport is handed no parameter mapping and
  no \<^verbatim>\<open>entry_id\<close> is transmitted.
\<close>

theorem entry_id_param_lost:
  "params (get_entry (PyStr ''abc-123'') (PyStr ''https://example.com/foo/bar'')
      (Some (PyStr ''foo/bar'')) Map.empty) = None
   \<and> sent_param (get_entry (PyStr ''abc-123'') (PyStr ''https://example.com/foo/bar'')
        (Some (PyStr ''foo/bar'')) Map.empty) ''entry_id'' = None
   \<and> params (delete_entry (PyStr ''abc-123'') (PyStr ''https://example.com/foo/bar'')
        (Some (PyStr ''foo/bar'')) Map.empty) = None
   \<and> sent_param (delete_entry (PyStr ''abc-123'') (PyStr ''https://example.com/foo/bar'')
        (Some (PyStr ''foo/bar'')) Map.empty) ''entry_id'' = None"
  by (simp add: Let_def get_entry_def delete_entry_def merge_params_def arg_default_def
        sent_param_def get_def delete_def)

section \<open>The search operation\<close>

text \<open>
  Claim C3. Whenever \<^verbatim>\<open>offset\<close> is omitted \<^verbatim>\<open>search\<close> transmits
  \<^verbatim>\<open>offset = 0\<close>, and whenever \<^verbatim>\<open>limit\<close> is omitted it transmits
  \<^verbatim>\<open>limit = 10\<close>, whatever the other arguments are; when \<^verbatim>\<open>query_template\<close> is
  omitted, the mapping handed to the transport has no such key; and
  \<^verbatim>\<open>search(index_id="abc-123", q="hello")\<close> is a \<^verbatim>\<open>GET\<close> of
  \<^verbatim>\<open>v1/index/abc-123/search\<close> with the parameters \<^verbatim>\<open>q\<close>, \<^verbatim>\<open>offset\<close>,
  \<^verbatim>\<open>limit\<close> and \<^verbatim>\<open>advanced\<close> and nothing else. The keyword dictionary of a call
  cannot hold the name of the named parameter \<^verbatim>\<open>query_template\<close>.
\<close>

theorem search_defaults:
  assumes "no_named kw [''query_template'']"
  shows "sent_param (search i q None lim qt adv kw) ''offset'' = Some (PyInt 0)
       \<and> sent_param (search i q off None qt adv kw) ''limit'' = Some (PyInt 10)
       \<and> sent_param (search i q off lim None adv kw) ''query_template'' = None
       \<and> params (search i q off lim qt adv kw) \<noteq> None
       \<and> search (PyStr ''abc-123'') (PyStr ''hello'') None None None None Map.empty
           = \<lparr>verb = GET, path = ''v1/index/abc-123/search'',
               params = Some [''q'' \<mapsto> PyStr ''hello'', ''offset'' \<mapsto> PyInt 0,
                              ''limit'' \<mapsto> PyInt 10, ''advanced'' \<mapsto> PyBool False],
               json_body = None\<rparr>"
  using assms
  by (simp add: Let_def search_def merge_params_def arg_default_def get_def sent_param_def
        no_named_def qjoin_path_def strip_sep_def)

theorem search_defaults_witness:
  "no_named [''filter'' \<mapsto> PyStr ''x''] [''query_template'']
   \<and> sent_param (search (PyStr ''abc-123'') (PyStr ''hello'') None None
        (Some (PyStr ''t'')) (Some (PyBool True)) [''filter'' \<mapsto> PyStr ''x''])
        ''offset'' = Some (PyInt 0)
   \<and> sent_param (search (PyStr ''abc-123'') (PyStr ''hello'') None None
        (Some (PyStr ''t'')) (Some (PyBool True)) [''filter'' \<mapsto> PyStr ''x''])
        ''limit'' = Some (PyInt 10)
   \<and> sent_param (search (PyStr ''abc-123'') (PyStr ''hello'') None None None
        (Some (PyBool True)) [''filter'' \<mapsto> PyStr ''x'']) ''query_template'' = None"
proof -
  have h: "no_named [''filter'' \<mapsto> PyStr ''x''] [''query_template'']"
    by (simp add: no_named_def)
  show ?thesis
    using h
      search_defaults [OF h, of "PyStr ''abc-123''" "PyStr ''hello''" None
        "Some (PyStr ''t'')" "Some (PyBool True)" None]
      search_defaults [OF h, of "PyStr ''abc-123''" "PyStr ''hello''" None
        None "Some (PyBool True)" None]
    by simp
qed

text \<open>
  Claim C6, as amended. For every call to \<^verbatim>\<open>search\<close> in which \<^verbatim>\<open>advanced\<close> is not
  passed as \<^verbatim>\<open>None\<close>, the parameter \<^verbatim>\<open>advanced\<close> is transmitted: with the value
  passed, and with the value false when the caller does not set it.
\<close>

theorem advanced_transmitted:
  assumes "adv \<noteq> Some PyNone"
  shows "sent_param (search i q off lim qt adv kw) ''advanced''
           = Some (arg_default (PyBool False) adv)
       \<and> sent_param (search i q off lim qt None kw) ''advanced'' = Some (PyBool False)"
  using assms
  by (cases adv)
     (simp_all add: Let_def search_def merge_params_def arg_default_def get_def sent_param_def)

theorem advanced_transmitted_witness:
  "Some (PyBool True) \<noteq> Some PyNone
   \<and> sent_param (search (PyStr ''abc-123'') (PyStr ''hello'') None None None
        (Some (PyBool True)) Map.empty) ''advanced'' = Some (PyBool True)"
proof -
  have h: "Some (PyBool True) \<noteq> Some PyNone" by simp
  show ?thesis
    using advanced_transmitted
            [OF h, of "PyStr ''abc-123''" "PyStr ''hello''" None None None Map.empty]
    by (simp add: arg_default_def)
qed

text \<open>
  Claim C6 as stated fails for \<^verbatim>\<open>search(index_id, q, advanced=None)\<close>: the merge drops
  the value, and no \<^verbatim>\<open>advanced\<close> parameter is transmitted.
\<close>

theorem advanced_none_dropped:
  "sent_param (search (PyStr ''abc-123'') (PyStr ''hello'') None None None (Some PyNone)
      Map.empty) ''advanced'' = None"
  by (simp add: Let_def search_def merge_params_def arg_default_def get_def sent_param_def)

section \<open>Verbs and paths\<close>

text \<open>
  Claim C4. Every operation issues the verb and the path of its row of the operation
  table (the path relative to the service's base URL, the identifier and the template
  name trimmed of separators at their ends); \<^verbatim>\<open>update_entry\<close> is a \<^verbatim>\<open>PUT\<close> of
  \<^verbatim>\<open>v1/index/{id}/entry\<close> with the given body, and \<^verbatim>\<open>get_query_template\<close> a
  \<^verbatim>\<open>GET\<close> of \<^verbatim>\<open>v1/index/{id}/query_template/{name}\<close> with neither query
  parameters nor body.
\<close>

theorem operation_table:
  "verb (get_index i kw) = GET
     \<and> path (get_index i kw) = ''v1/index/'' @ strip_sep (safe_stringify i)
   \<and> verb (search i q off lim qt adv kw) = GET
     \<and> path (search i q off lim qt adv kw)
         = ''v1/index/'' @ strip_sep (safe_stringify i) @ ''/search''
   \<and> post_search i d =
       \<lparr>verb = POST, path = ''v1/index/'' @ strip_sep (safe_stringify i) @ ''/search'',
        params = None, json_body = Some d\<rparr>
   \<and> ingest i d =
       \<lparr>verb = POST, path = ''v1/index/'' @ strip_sep (safe_stringify i) @ ''/ingest'',
        params = None, json_body = Some d\<rparr>
   \<and> delete_by_query i d =
       \<lparr>verb = POST,
        path = ''v1/index/'' @ strip_sep (safe_stringify i) @ ''/delete_by_query'',
        params = None, json_body = Some d\<rparr>
   \<and> verb (get_subject i s kw) = GET
     \<and> path (get_subject i s kw) = ''v1/index/'' @ strip_sep (safe_stringify i) @ ''/subject''
   \<and> verb (delete_subject i s kw) = DELETE
     \<and> path (delete_subject i s kw)
         = ''v1/index/'' @ strip_sep (safe_stringify i) @ ''/subject''
   \<and> verb (get_entry i s e kw) = GET
     \<and> path (get_entry i s e kw) = ''v1/index/'' @ strip_sep (safe_stringify i) @ ''/entry''
   \<and> create_entry i d =
       \<lparr>verb = POST, path = ''v1/index/'' @ strip_sep (safe_stringify i) @ ''/entry'',
        params = None, json_body = Some d\<rparr>
   \<and> update_entry i d =
       \<lparr>verb = PUT, path = ''v1/index/'' @ strip_sep (safe_stringify i) @ ''/entry'',
        params = None, json_body = Some d\<rparr>
   \<and> verb (delete_entry i s e kw) = DELETE
     \<and> path (delete_entry i s e kw) = ''v1/index/'' @ strip_sep (safe_stringify i) @ ''/entry''
   \<and> get_query_template i t =
       \<lparr>verb = GET,
        path = ''v1/index/'' @ strip_sep (safe_stringify i) @ ''/query_template/''
                 @ strip_sep t,
        params = None, json_body = None\<rparr>
   \<and> get_query_template_list i =
       \<lparr>verb = GET,
        path = ''v1/index/'' @ strip_sep (safe_stringify i) @ ''/query_template'',
        params = None, json_body = None\<rparr>"
  by (simp add: Let_def get_index_def search_def post_search_def ingest_def
       delete_by_query_def get_subject_def delete_subject_def get_entry_def create_entry_def
       update_entry_def delete_entry_def get_query_template_def get_query_template_list_def
       get_def post_def put_def delete_def merge_params_def qjoin2 qjoin3 qjoin4
       strip_sep_def [of "''search''"] strip_sep_def [of "''ingest''"]
       strip_sep_def [of "''delete_by_query''"] strip_sep_def [of "''subject''"]
       strip_sep_def [of "''entry''"] strip_sep_def [of "''query_template''"])

lemma one_segment2:
  "clean_segment s \<Longrightarrow> s \<notin> set fixed_segments \<Longrightarrow>
   one_segment s (qjoin_path [''v1/index'', s])"
  unfolding one_segment_def clean_segment_def fixed_segments_def
  by (intro conjI no_double_sep) (auto simp add: segs2)

lemma one_segment3:
  "clean_segment s \<Longrightarrow> s \<notin> set fixed_segments \<Longrightarrow> x \<in> set fixed_segments \<Longrightarrow>
   one_segment s (qjoin_path [''v1/index'', s, x])"
  unfolding one_segment_def clean_segment_def fixed_segments_def
  by (intro conjI no_double_sep) (auto simp add: segs3)

lemma one_segment4:
  "clean_segment s \<Longrightarrow> s \<notin> set fixed_segments \<Longrightarrow> clean_segment t \<Longrightarrow> t \<noteq> s \<Longrightarrow>
   one_segment s (qjoin_path [''v1/index'', s, ''query_template'', t])"
  unfolding one_segment_def clean_segment_def fixed_segments_def
  by (intro conjI no_double_sep) (auto simp add: segs4)

lemma path_simps:
  "path (get p q) = p" "path (post p d) = p" "path (put p d) = p" "path (delete p q) = p"
  by (simp_all add: get_def post_def put_def delete_def)

text \<open>
  Claim C5, as amended. For every operation taking an index identifier, and every
  identifier whose string form is not empty, holds no separator and is none of the
  literal segments the paths are built from, the path has exactly one segment equal to
  that string form and no two adjacent separators (for \<^verbatim>\<open>get_query_template\<close>, given
  a template name that is likewise not empty and free of separators, and is not the
  identifier).
\<close>

theorem index_segment_once:
  assumes "clean_segment (safe_stringify i)" and "safe_stringify i \<notin> set fixed_segments"
    and "clean_segment t" and "t \<noteq> safe_stringify i"
  shows "one_segment (safe_stringify i) (path (get_index i kw))
       \<and> one_segment (safe_stringify i) (path (search i q off lim qt adv kw))
       \<and> one_segment (safe_stringify i) (path (post_search i d))
       \<and> one_segment (safe_stringify i) (path (ingest i d))
       \<and> one_segment (safe_stringify i) (path (delete_by_query i d))
       \<and> one_segment (safe_stringify i) (path (get_subject i s kw))
       \<and> one_segment (safe_stringify i) (path (delete_subject i s kw))
       \<and> one_segment (safe_stringify i) (path (get_entry i s e kw))
       \<and> one_segment (safe_stringify i) (path (create_entry i d))
       \<and> one_segment (safe_stringify i) (path (update_entry i d))
       \<and> one_segment (safe_stringify i) (path (delete_entry i s e kw))
       \<and> one_segment (safe_stringify i) (path (get_query_template i t))
       \<and> one_segment (safe_stringify i) (path (get_query_template_list i))"
proof -
  note seg = one_segment3 [OF assms(1) assms(2)]
  have fx: "''search'' \<in> set fixed_segments" "''ingest'' \<in> set fixed_segments"
    "''delete_by_query'' \<in> set fixed_segments" "''subject'' \<in> set fixed_segments"
    "''entry'' \<in> set fixed_segments" "''query_template'' \<in> set fixed_segments"
    by (simp_all add: fixed_segments_def)
  show ?thesis
    by (simp add: Let_def get_index_def search_def post_search_def ingest_def
       delete_by_query_def get_subject_def delete_subject_def get_entry_def create_entry_def
       update_entry_def delete_entry_def get_query_template_def get_query_template_list_def
       path_simps seg [OF fx(1)] seg [OF fx(2)] seg [OF fx(3)] seg [OF fx(4)]
       seg [OF fx(5)] seg [OF fx(6)] one_segment2 [OF assms(1) assms(2)]
       one_segment4 [OF assms]
       split: prod.splits)
qed

theorem index_segment_once_witness:
  "clean_segment (safe_stringify (PyStr ''abc-123''))
   \<and> safe_stringify (PyStr ''abc-123'') \<notin> set fixed_segments
   \<and> clean_segment ''tmpl'' \<and> ''tmpl'' \<noteq> safe_stringify (PyStr ''abc-123'')
   \<and> one_segment ''abc-123'' (path (get_index (PyStr ''abc-123'') Map.empty))
   \<and> one_segment ''abc-123'' (path (get_query_template (PyStr ''abc-123'') ''tmpl''))"
proof -
  have h1: "clean_segment (safe_stringify (PyStr ''abc-123''))"
    by (simp add: clean_segment_def)
  have h2: "safe_stringify (PyStr ''abc-123'') \<notin> set fixed_segments"
    by (simp add: fixed_segments_def)
  have h3: "clean_segment ''tmpl''" by (simp add: clean_segment_def)
  have h4: "''tmpl'' \<noteq> safe_stringify (PyStr ''abc-123'')" by simp
  show ?thesis
    using h1 h2 h3 h4 index_segment_once [OF h1 h2 h3 h4, of Map.empty] by simp
qed

text \<open>
  Claim C5 as stated fails for an identifier that is itself one of the literal segments,
  and for one that holds a separator: the path of \<^verbatim>\<open>get_index("index")\<close> has two
  segments equal to the identifier, that of \<^verbatim>\<open>get_index("a/b")\<close> has none.
\<close>

theorem index_segment_twice:
  "count_list (split_sep (path (get_index (PyStr ''index'') Map.empty)))
      (safe_stringify (PyStr ''index'')) = 2
   \<and> count_list (split_sep (path (get_index (PyStr ''a/b'') Map.empty)))
      (safe_stringify (PyStr ''a/b'')) = 0"
  by (simp add: get_index_def get_def qjoin_path_def strip_sep_def)

section \<open>Errors\<close>

text \<open>
  Claim C7. Whatever request an operation sends, if the transport answers with a reply
  whose status is not 2xx the outcome is the client's error class carrying the status,
  the error code if the body has one, and the message of the body; the outcome is a
  response wrapper exactly when the status is 2xx. A reply of 404 with the body
  \<^verbatim>\<open>{"code":"NotFound","message":"no such index"}\<close> makes \<^verbatim>\<open>get_index\<close> raise an
  error with status 404 and message "no such index".
\<close>

theorem non_2xx_raises:
  "(tr req st = (Inr r, st') \<longrightarrow>
      send tr req st =
        (if 200 \<le> status r \<and> status r < 300
         then Inr \<lparr>http_status = status r, data = body r\<rparr>
         else Inl (SearchAPIError \<lparr>err_status = status r,
                     err_code = json_string (json_field (body r) ''code''),
                     err_message = json_string (json_field (body r) ''message'')\<rparr>), st')
      \<and> ((\<exists>w. fst (send tr req st) = Inr w) \<longleftrightarrow> (200 \<le> status r \<and> status r < 300)))
   \<and> send (fixed_reply \<lparr>status = 404,
               body = JObj [(''code'', JStr ''NotFound''),
                            (''message'', JStr ''no such index'')]\<rparr>)
          (get_index i kw) ()
       = (Inl (SearchAPIError \<lparr>err_status = 404, err_code = Some ''NotFound'',
                                err_message = Some ''no such index''\<rparr>), ())"
  by (simp add: send_def error_class_def exc_SearchAPIError_def default_response_class_def
        fixed_reply_def json_field_def json_string_def)

theorem non_2xx_raises_witness:
  "stub_service (get_entry (PyStr ''abc-123'') (PyStr ''s'') None Map.empty) []
     = (Inr \<lparr>status = 404,
             body = JObj [(''code'', JStr ''NotFound''),
                          (''message'', JStr ''no such entry'')]\<rparr>, [])
   \<and> send stub_service (get_entry (PyStr ''abc-123'') (PyStr ''s'') None Map.empty) []
     = (Inl (SearchAPIError \<lparr>err_status = 404, err_code = Some ''NotFound'',
                                err_message = Some ''no such entry''\<rparr>), [])"
proof -
  have h: "stub_service (get_entry (PyStr ''abc-123'') (PyStr ''s'') None Map.empty) []
     = (Inr \<lparr>status = 404,
             body = JObj [(''code'', JStr ''NotFound''),
                          (''message'', JStr ''no such entry'')]\<rparr>, [])"
    by (simp add: stub_service_def get_entry_def get_def merge_params_def arg_default_def)
  show ?thesis
    using h non_2xx_raises
      [of stub_service "get_entry (PyStr ''abc-123'') (PyStr ''s'') None Map.empty"
          "[]" _ "[]"]
    by (simp add: json_field_def json_string_def)
qed

text \<open>
  Claim C8. Constructing the client with an authorizer succeeds exactly for the three
  token-bearing variants; with a basic-auth authorizer it is rejected, whatever the other
  constructor arguments.
\<close>

theorem basic_auth_rejected:
  "((\<exists>c. SearchClient_init (Some a) kw = Inr c) \<longleftrightarrow>
      authorizer_kind a
        \<in> {AccessTokenAuthorizer, RefreshTokenAuthorizer, ClientCredentialsAuthorizer})
   \<and> SearchClient_init (Some \<lparr>authorizer_kind = BasicAuthorizer, credentials = cr\<rparr>) kw
        = Inl GlobusSDKUsageError"
  by (simp add: SearchClient_init_def BaseClient_init_def allowed_authorizer_types_def)

section \<open>Relations between operations\<close>

text \<open>
  Claim C9 asks that, against the stub of the service, \<^verbatim>\<open>create_entry\<close> with a
  document and then \<^verbatim>\<open>get_entry\<close> with the same index identifier, subject and entry
  id return a body with the \<^verbatim>\<open>subject\<close> and \<^verbatim>\<open>content\<close> of the document. The
  code does not: \<^verbatim>\<open>create_entry\<close> stores the document, but \<^verbatim>\<open>get_entry\<close>
  (line 279) hands the transport no parameters, so the stub finds no entry for the
  missing subject and answers 404, which is raised as the client's error.
\<close>

theorem create_then_get_entry_not_found:
  "send stub_service
     (create_entry (PyStr ''abc-123'')
        (JObj [(''subject'', JStr ''https://example.com/foo/bar''),
               (''visible_to'', JArr [JStr ''public'']),
               (''id'', JStr ''foo/bar''),
               (''content'', JObj [(''foo/bar'', JStr ''some val'')])])) []
     = (Inr \<lparr>http_status = 200, data = JObj [(''success'', JBool True)]\<rparr>,
        [(''v1/index/abc-123/entry'',
          JObj [(''subject'', JStr ''https://example.com/foo/bar''),
                (''visible_to'', JArr [JStr ''public'']),
                (''id'', JStr ''foo/bar''),
                (''content'', JObj [(''foo/bar'', JStr ''some val'')])])])
   \<and> send stub_service
       (get_entry (PyStr ''abc-123'') (PyStr ''https://example.com/foo/bar'')
          (Some (PyStr ''foo/bar'')) Map.empty)
       [(''v1/index/abc-123/entry'',
          JObj [(''subject'', JStr ''https://example.com/foo/bar''),
                (''visible_to'', JArr [JStr ''public'']),
                (''id'', JStr ''foo/bar''),
                (''content'', JObj [(''foo/bar'', JStr ''some val'')])])]
     = (Inl (SearchAPIError \<lparr>err_status = 404, err_code = Some ''NotFound'',
                                err_message = Some ''no such entry''\<rparr>),
        [(''v1/index/abc-123/entry'',
          JObj [(''subject'', JStr ''https://example.com/foo/bar''),
                (''visible_to'', JArr [JStr ''public'']),
                (''id'', JStr ''foo/bar''),
                (''content'', JObj [(''foo/bar'', JStr ''some val'')])])])"
  by (simp add: Let_def send_def stub_service_def create_entry_def get_entry_def post_def
        get_def merge_params_def arg_default_def sent_param_def entry_matches_def
        or_null_def json_field_def json_string_def default_response_class_def
        error_class_def exc_SearchAPIError_def qjoin_path_def strip_sep_def)

text \<open>
  Claim C10. \<^verbatim>\<open>get_entry\<close> and \<^verbatim>\<open>delete_entry\<close> hand the transport the same path,
  the same query parameters and the same (absent) body, and differ in the verb only; so
  do \<^verbatim>\<open>get_subject\<close> and \<^verbatim>\<open>delete_subject\<close>.
\<close>

theorem get_delete_same_request:
  "path (get_entry i s e kw) = path (delete_entry i s e kw)
   \<and> params (get_entry i s e kw) = params (delete_entry i s e kw)
   \<and> json_body (get_entry i s e kw) = json_body (delete_entry i s e kw)
   \<and> verb (get_entry i s e kw) = GET \<and> verb (delete_entry i s e kw) = DELETE
   \<and> path (get_subject i s kw) = path (delete_subject i s kw)
   \<and> params (get_subject i s kw) = params (delete_subject i s kw)
   \<and> json_body (get_subject i s kw) = json_body (delete_subject i s kw)
   \<and> verb (get_subject i s kw) = GET \<and> verb (delete_subject i s kw) = DELETE"
  by (simp add: Let_def get_entry_def delete_entry_def get_subject_def delete_subject_def
        get_def delete_def split: prod.splits)

end
